theory Spec2Isabelle
  imports Main "HOL-Library.Monad_Syntax"
begin

section \<open>Data model (gestao\_efetivo\_app.py, lines 14--80)\<close>

text \<open>
  Python strings are modelled as \<open>string\<close>, the UTF-8 bytes of the text: equality and the
  lexicographic order of the bytes agree with Python's equality and order on code points.
  The three enumerations are \<open>str\<close>-backed; the program only ever uses their \<open>.value\<close>.
\<close>

datatype Rank = CEL | TC | MAJ | CAP | TEN_1 | TEN_2 | ST | SGT_1 | SGT_2 | SGT_3 | CB | SD | FCIVIL

fun Rank_value :: "Rank \<Rightarrow> string" where
  "Rank_value CEL = ''CEL''"
| "Rank_value TC = ''TC''"
| "Rank_value MAJ = ''MAJ''"
| "Rank_value CAP = ''CAP''"
| "Rank_value TEN_1 = ''1'' @ [CHR 0xC2, CHR 0xBA] @ '' TEN''"
| "Rank_value TEN_2 = ''2'' @ [CHR 0xC2, CHR 0xBA] @ '' TEN''"
| "Rank_value ST = ''ST''"
| "Rank_value SGT_1 = ''1'' @ [CHR 0xC2, CHR 0xBA] @ '' SGT''"
| "Rank_value SGT_2 = ''2'' @ [CHR 0xC2, CHR 0xBA] @ '' SGT''"
| "Rank_value SGT_3 = ''3'' @ [CHR 0xC2, CHR 0xBA] @ '' SGT''"
| "Rank_value CB = ''CB''"
| "Rank_value SD = ''SD''"
| "Rank_value FCIVIL = ''F.CIVIL''"

definition Rank_values :: "string list" where
  "Rank_values = map Rank_value [CEL, TC, MAJ, CAP, TEN_1, TEN_2, ST, SGT_1, SGT_2, SGT_3, CB, SD, FCIVIL]"

datatype UserRole = ADMIN | MANAGER | USER

fun UserRole_value :: "UserRole \<Rightarrow> string" where
  "UserRole_value ADMIN = ''ADMIN''"
| "UserRole_value MANAGER = ''MANAGER''"
| "UserRole_value USER = ''USER''"

definition UserRole_values :: "string list" where
  "UserRole_values = map UserRole_value [ADMIN, MANAGER, USER]"

datatype LeaveType = FERIAS | ABONO | LTSP | RESTRICAO | LICENCA_ESPECIAL | LTIP | PRONTO_EMPREGO
  | EXTRA | REPRESENTACAO | DISPENSA_RECOMPENSA

fun LeaveType_value :: "LeaveType \<Rightarrow> string" where
  "LeaveType_value FERIAS = ''F'' @ [CHR 0xC3, CHR 0x89] @ ''RIAS''"
| "LeaveType_value ABONO = ''ABONO''"
| "LeaveType_value LTSP = ''LTSP''"
| "LeaveType_value RESTRICAO = ''RESTRI'' @ [CHR 0xC3, CHR 0x87, CHR 0xC3, CHR 0x83] @ ''O''"
| "LeaveType_value LICENCA_ESPECIAL = ''LICEN'' @ [CHR 0xC3, CHR 0x87] @ ''A ESPECIAL''"
| "LeaveType_value LTIP = ''LTIP''"
| "LeaveType_value PRONTO_EMPREGO = ''PRONTO EMPREGO''"
| "LeaveType_value EXTRA = ''EXTRA''"
| "LeaveType_value REPRESENTACAO = ''REPRESENTA'' @ [CHR 0xC3, CHR 0x87, CHR 0xC3, CHR 0x83] @ ''O''"
| "LeaveType_value DISPENSA_RECOMPENSA = ''DISPENSA RECOMPENSA''"

definition LeaveType_values :: "string list" where
  "LeaveType_values = map LeaveType_value [FERIAS, ABONO, LTSP, RESTRICAO, LICENCA_ESPECIAL, LTIP,
     PRONTO_EMPREGO, EXTRA, REPRESENTACAO, DISPENSA_RECOMPENSA]"

text \<open>
  The dataclasses. Python does not check the annotations \<open>str\<close> and \<open>int\<close>: an attribute
  holds whatever value the constructor was given. The records are therefore polymorphic in the
  type \<open>'s\<close> of the attributes annotated \<open>str\<close> and the type \<open>'i\<close> of those annotated
  \<open>int\<close>. The pages of the application are modelled on the instance the annotations
  describe (\<open>string\<close>, \<open>int\<close>); \<open>load_state\<close> builds objects whose attributes are the
  JSON values of the file. The attribute \<open>id\<close> is written \<open>p_id\<close> and \<open>l_id\<close>, and
  \<open>type\<close> is written \<open>l_type\<close>.
\<close>

record ('s, 'i) Personnel =
  p_id :: 's
  ant :: 'i
  grad :: 's
  quadro :: 's
  nome :: 's
  matr :: 's
  unid :: 's
  secao :: 's
  situacao :: 's
  esc :: 's
  saldoFerias :: 'i
  saldoAbono :: 'i
  role :: 's

record 's LeaveRecord =
  l_id :: 's
  personnel_id :: 's
  l_type :: 's
  startDate :: 's
  endDate :: 's
  description :: 's
  createdAt :: 's

record ('s, 'i) AppState =
  personnel :: "('s, 'i) Personnel list"
  leaves :: "'s LeaveRecord list"

type_synonym person = "(string, int) Personnel"
type_synonym leave = "string LeaveRecord"
type_synonym state = "(string, int) AppState"

section \<open>JSON values and the exceptions of the program\<close>

text \<open>
  What \<open>json.load\<close> returns. An object keeps its members in the order of the document;
  Python's \<open>dict\<close> keeps, for a repeated key, the last value (\<open>dict_get\<close>). A float
  is carried as its \<open>repr\<close> and never computed on.
\<close>

datatype json = JNull | JBool bool | JInt int | JFloat string | JStr string
  | JArr "json list" | JObj "(string \<times> json) list"

datatype py_error = JSONDecodeError | AttributeError | TypeError | KeyError

definition dict_get :: "('k \<times> 'v) list \<Rightarrow> 'k \<Rightarrow> 'v option" where
  "dict_get kvs k = map_of (rev kvs) k"

definition dict_keys :: "('k \<times> 'v) list \<Rightarrow> 'k list" where
  "dict_keys kvs = rev (remdups (rev (map fst kvs)))"

text \<open>\<open>for p in v\<close>: a list yields its elements, a dict its keys, a string its characters;
  every other JSON value is not iterable.\<close>

fun py_iter :: "json \<Rightarrow> py_error + json list" where
  "py_iter (JArr xs) = Inr xs"
| "py_iter (JObj kvs) = Inr (map JStr (dict_keys kvs))"
| "py_iter (JStr s) = Inr (map (\<lambda>c. JStr [c]) s)"
| "py_iter _ = Inl TypeError"

text \<open>A list comprehension whose element expression may raise: the first exception ends it.\<close>

fun comprehension :: "('a \<Rightarrow> py_error + 'b) \<Rightarrow> 'a list \<Rightarrow> py_error + 'b list" where
  "comprehension f [] = Inr []"
| "comprehension f (x # xs) =
     (case f x of Inl e \<Rightarrow> Inl e
      | Inr y \<Rightarrow> (case comprehension f xs of Inl e \<Rightarrow> Inl e | Inr ys \<Rightarrow> Inr (y # ys)))"

definition Personnel_fields :: "string list" where
  "Personnel_fields = [''id'', ''ant'', ''grad'', ''quadro'', ''nome'', ''matr'', ''unid'', ''secao'',
     ''situacao'', ''esc'', ''saldoFerias'', ''saldoAbono'', ''role'']"

definition LeaveRecord_fields :: "string list" where
  "LeaveRecord_fields = [''id'', ''personnel_id'', ''type'', ''startDate'', ''endDate'',
     ''description'', ''createdAt'']"

text \<open>
  \<open>Personnel(**p)\<close>, the constructor the dataclass decorator generates, called with the
  members of \<open>p\<close> as keyword arguments: \<open>TypeError\<close> when \<open>p\<close> is not a mapping, when a
  keyword is not a field, and when a field has no keyword. The values are stored as they are.
\<close>

fun Personnel_kw :: "json \<Rightarrow> py_error + (json, json) Personnel" where
  "Personnel_kw (JObj kvs) =
     (if \<not> list_all (\<lambda>k. k \<in> set Personnel_fields) (map fst kvs) then Inl TypeError
      else case do {
          a1 \<leftarrow> dict_get kvs ''id'';
          a2 \<leftarrow> dict_get kvs ''ant'';
          a3 \<leftarrow> dict_get kvs ''grad'';
          a4 \<leftarrow> dict_get kvs ''quadro'';
          a5 \<leftarrow> dict_get kvs ''nome'';
          a6 \<leftarrow> dict_get kvs ''matr'';
          a7 \<leftarrow> dict_get kvs ''unid'';
          a8 \<leftarrow> dict_get kvs ''secao'';
          a9 \<leftarrow> dict_get kvs ''situacao'';
          a10 \<leftarrow> dict_get kvs ''esc'';
          a11 \<leftarrow> dict_get kvs ''saldoFerias'';
          a12 \<leftarrow> dict_get kvs ''saldoAbono'';
          a13 \<leftarrow> dict_get kvs ''role'';
          Some \<lparr>p_id = a1, ant = a2, grad = a3, quadro = a4, nome = a5, matr = a6, unid = a7,
            secao = a8, situacao = a9, esc = a10, saldoFerias = a11, saldoAbono = a12, role = a13\<rparr>
        } of None \<Rightarrow> Inl TypeError | Some p \<Rightarrow> Inr p)"
| "Personnel_kw _ = Inl TypeError"

fun LeaveRecord_kw :: "json \<Rightarrow> py_error + json LeaveRecord" where
  "LeaveRecord_kw (JObj kvs) =
     (if \<not> list_all (\<lambda>k. k \<in> set LeaveRecord_fields) (map fst kvs) then Inl TypeError
      else case do {
          a1 \<leftarrow> dict_get kvs ''id'';
          a2 \<leftarrow> dict_get kvs ''personnel_id'';
          a3 \<leftarrow> dict_get kvs ''type'';
          a4 \<leftarrow> dict_get kvs ''startDate'';
          a5 \<leftarrow> dict_get kvs ''endDate'';
          a6 \<leftarrow> dict_get kvs ''description'';
          a7 \<leftarrow> dict_get kvs ''createdAt'';
          Some \<lparr>l_id = a1, personnel_id = a2, l_type = a3, startDate = a4, endDate = a5,
            description = a6, createdAt = a7\<rparr>
        } of None \<Rightarrow> Inl TypeError | Some l \<Rightarrow> Inr l)"
| "LeaveRecord_kw _ = Inl TypeError"

section \<open>Persistence (lines 87--113)\<close>

text \<open>
  The file \<open>dados_efetivo.json\<close>: absent (\<open>None\<close>), or holding text that \<open>json.load\<close>
  rejects (\<open>NotJSON\<close>) or parses to a value (\<open>Document\<close>). \<open>json.dump\<close> followed by
  \<open>json.load\<close> is the identity on the values the program writes, so the text itself is not
  modelled.
\<close>

datatype file_content = NotJSON | Document json

definition default_state :: "('s, 'i) AppState" where
  "default_state = \<lparr>personnel = [], leaves = []\<rparr>"

text \<open>\<open>raw.get(key, [])\<close>; \<open>raw\<close> must be a dict, every other JSON value has no \<open>get\<close>.\<close>

fun raw_get :: "json \<Rightarrow> string \<Rightarrow> py_error + json" where
  "raw_get (JObj kvs) k = (case dict_get kvs k of None \<Rightarrow> Inr (JArr []) | Some v \<Rightarrow> Inr v)"
| "raw_get _ k = Inl AttributeError"

fun load_state :: "file_content option \<Rightarrow> py_error + (json, json) AppState" where
  "load_state None = Inr default_state"
| "load_state (Some NotJSON) = Inl JSONDecodeError"
| "load_state (Some (Document raw)) =
     (case raw_get raw ''personnel'' of Inl e \<Rightarrow> Inl e
      | Inr ps \<Rightarrow> (case py_iter ps of Inl e \<Rightarrow> Inl e
      | Inr ps' \<Rightarrow> (case comprehension Personnel_kw ps' of Inl e \<Rightarrow> Inl e
      | Inr personnel' \<Rightarrow> (case raw_get raw ''leaves'' of Inl e \<Rightarrow> Inl e
      | Inr ls \<Rightarrow> (case py_iter ls of Inl e \<Rightarrow> Inl e
      | Inr ls' \<Rightarrow> (case comprehension LeaveRecord_kw ls' of Inl e \<Rightarrow> Inl e
      | Inr leaves' \<Rightarrow> Inr \<lparr>personnel = personnel', leaves = leaves'\<rparr>))))))"

text \<open>\<open>asdict\<close> of an object whose attributes have the annotated types.\<close>

definition asdict_P :: "person \<Rightarrow> json" where
  "asdict_P p = JObj [(''id'', JStr (p_id p)), (''ant'', JInt (ant p)), (''grad'', JStr (grad p)),
     (''quadro'', JStr (quadro p)), (''nome'', JStr (nome p)), (''matr'', JStr (matr p)),
     (''unid'', JStr (unid p)), (''secao'', JStr (secao p)), (''situacao'', JStr (situacao p)),
     (''esc'', JStr (esc p)), (''saldoFerias'', JInt (saldoFerias p)),
     (''saldoAbono'', JInt (saldoAbono p)), (''role'', JStr (role p))]"

definition asdict_L :: "leave \<Rightarrow> json" where
  "asdict_L l = JObj [(''id'', JStr (l_id l)), (''personnel_id'', JStr (personnel_id l)),
     (''type'', JStr (l_type l)), (''startDate'', JStr (startDate l)),
     (''endDate'', JStr (endDate l)), (''description'', JStr (description l)),
     (''createdAt'', JStr (createdAt l))]"

definition save_state :: "state \<Rightarrow> file_content option" where
  "save_state s = Some (Document (JObj [(''personnel'', JArr (map asdict_P (personnel s))),
     (''leaves'', JArr (map asdict_L (leaves s)))]))"

text \<open>
  The object with attributes of the annotated types, seen as the object \<open>load_state\<close>
  builds (\<open>obj_\<close>), and back (\<open>typed_\<close>, defined where every attribute has its annotated type).
\<close>

definition obj_P :: "person \<Rightarrow> (json, json) Personnel" where
  "obj_P p = \<lparr>p_id = JStr (p_id p), ant = JInt (ant p), grad = JStr (grad p),
     quadro = JStr (quadro p), nome = JStr (nome p), matr = JStr (matr p), unid = JStr (unid p),
     secao = JStr (secao p), situacao = JStr (situacao p), esc = JStr (esc p),
     saldoFerias = JInt (saldoFerias p), saldoAbono = JInt (saldoAbono p), role = JStr (role p)\<rparr>"

definition obj_L :: "leave \<Rightarrow> json LeaveRecord" where
  "obj_L l = \<lparr>l_id = JStr (l_id l), personnel_id = JStr (personnel_id l), l_type = JStr (l_type l),
     startDate = JStr (startDate l), endDate = JStr (endDate l),
     description = JStr (description l), createdAt = JStr (createdAt l)\<rparr>"

definition obj_state :: "state \<Rightarrow> (json, json) AppState" where
  "obj_state s = \<lparr>personnel = map obj_P (personnel s), leaves = map obj_L (leaves s)\<rparr>"

fun as_str :: "json \<Rightarrow> string option" where
  "as_str (JStr s) = Some s"
| "as_str _ = None"

fun as_int :: "json \<Rightarrow> int option" where
  "as_int (JInt i) = Some i"
| "as_int _ = None"

definition typed_P :: "(json, json) Personnel \<Rightarrow> person option" where
  "typed_P d = do {
     a1 \<leftarrow> as_str (p_id d);
     a2 \<leftarrow> as_int (ant d);
     a3 \<leftarrow> as_str (grad d);
     a4 \<leftarrow> as_str (quadro d);
     a5 \<leftarrow> as_str (nome d);
     a6 \<leftarrow> as_str (matr d);
     a7 \<leftarrow> as_str (unid d);
     a8 \<leftarrow> as_str (secao d);
     a9 \<leftarrow> as_str (situacao d);
     a10 \<leftarrow> as_str (esc d);
     a11 \<leftarrow> as_int (saldoFerias d);
     a12 \<leftarrow> as_int (saldoAbono d);
     a13 \<leftarrow> as_str (role d);
     Some \<lparr>p_id = a1, ant = a2, grad = a3, quadro = a4, nome = a5, matr = a6, unid = a7,
       secao = a8, situacao = a9, esc = a10, saldoFerias = a11, saldoAbono = a12, role = a13\<rparr>
   }"

definition typed_L :: "json LeaveRecord \<Rightarrow> leave option" where
  "typed_L d = do {
     a1 \<leftarrow> as_str (l_id d);
     a2 \<leftarrow> as_str (personnel_id d);
     a3 \<leftarrow> as_str (l_type d);
     a4 \<leftarrow> as_str (startDate d);
     a5 \<leftarrow> as_str (endDate d);
     a6 \<leftarrow> as_str (description d);
     a7 \<leftarrow> as_str (createdAt d);
     Some \<lparr>l_id = a1, personnel_id = a2, l_type = a3, startDate = a4, endDate = a5,
       description = a6, createdAt = a7\<rparr>
   }"

fun those_map :: "('a \<Rightarrow> 'b option) \<Rightarrow> 'a list \<Rightarrow> 'b list option" where
  "those_map f [] = Some []"
| "those_map f (x # xs) =
     (case f x of None \<Rightarrow> None
      | Some y \<Rightarrow> (case those_map f xs of None \<Rightarrow> None | Some ys \<Rightarrow> Some (y # ys)))"

definition typed_state :: "(json, json) AppState \<Rightarrow> state option" where
  "typed_state d =
     (case those_map typed_P (personnel d) of None \<Rightarrow> None
      | Some ps \<Rightarrow> (case those_map typed_L (leaves d) of None \<Rightarrow> None
      | Some ls \<Rightarrow> Some \<lparr>personnel = ps, leaves = ls\<rparr>))"

section \<open>Python library functions the pages use\<close>

text \<open>\<open>str(n)\<close> of a non-negative integer, as an f-string renders it.\<close>

definition digit_char :: "nat \<Rightarrow> char" where
  "digit_char d = ''0123456789'' ! d"

function str_nat :: "nat \<Rightarrow> string" where
  "str_nat n = (if n < 10 then [digit_char n] else str_nat (n div 10) @ [digit_char (n mod 10)])"
  by pat_completeness auto
termination
  by (relation "measure (\<lambda>n. n)") auto

declare str_nat.simps [simp del]

text \<open>
  \<open>datetime.date\<close>: year, month and day; \<open>toordinal\<close> counts the days from 0001-01-01
  (ordinal 1) in the proleptic Gregorian calendar, \<open>d1 - d2\<close> is the difference of the
  ordinals, \<open>d1 < d2\<close> compares (year, month, day), \<open>isoformat\<close> is \<open>%04d-%02d-%02d\<close>.
\<close>

record date =
  year :: nat
  month :: nat
  day :: nat

definition is_leap :: "nat \<Rightarrow> bool" where
  "is_leap y = (y mod 4 = 0 \<and> (y mod 100 \<noteq> 0 \<or> y mod 400 = 0))"

definition DAYS_IN_MONTH :: "nat list" where
  "DAYS_IN_MONTH = [31, 28, 31, 30, 31, 30, 31, 31, 30, 31, 30, 31]"

definition days_before_year :: "nat \<Rightarrow> int" where
  "days_before_year y = (let y1 = int y - 1 in y1 * 365 + y1 div 4 - y1 div 100 + y1 div 400)"

definition days_before_month :: "nat \<Rightarrow> nat \<Rightarrow> int" where
  "days_before_month y m =
     int (sum_list (take (m - 1) DAYS_IN_MONTH)) + (if m > 2 \<and> is_leap y then 1 else 0)"

definition toordinal :: "date \<Rightarrow> int" where
  "toordinal d = days_before_year (year d) + days_before_month (year d) (month d) + int (day d)"

definition date_less :: "date \<Rightarrow> date \<Rightarrow> bool" where
  "date_less a b = (year a < year b \<or> (year a = year b \<and>
     (month a < month b \<or> (month a = month b \<and> day a < day b))))"

definition zero_pad :: "nat \<Rightarrow> string \<Rightarrow> string" where
  "zero_pad w s = replicate (w - length s) (CHR ''0'') @ s"

definition isoformat :: "date \<Rightarrow> string" where
  "isoformat d = zero_pad 4 (str_nat (year d)) @ ''-'' @ zero_pad 2 (str_nat (month d))
     @ ''-'' @ zero_pad 2 (str_nat (day d))"

text \<open>\<open>a <= b\<close> on strings: lexicographic, a proper prefix is smaller.\<close>

fun str_le :: "string \<Rightarrow> string \<Rightarrow> bool" where
  "str_le [] ys = True"
| "str_le (x # xs) [] = False"
| "str_le (x # xs) (y # ys) =
     (if x = y then str_le xs ys else (of_char x :: nat) < of_char y)"

section \<open>Helper functions (lines 120--136)\<close>

definition generate_id :: "string \<Rightarrow> 'a list \<Rightarrow> string" where
  "generate_id prefix elements = prefix @ str_nat (length elements + 1)"

text \<open>
  \<open>find_person_by_id\<close> returns the first object of \<open>state.personnel\<close> with the given id,
  or \<open>None\<close>. \<open>page_leaves\<close> assigns to attributes of the object it gets, so the model
  returns the position of the object in the list, which stands for the reference; every
  position of the list holds an object of its own (\<open>load_state\<close> and \<open>page_personnel\<close>
  construct each one afresh).
\<close>

fun first_index :: "('a \<Rightarrow> bool) \<Rightarrow> 'a list \<Rightarrow> nat option" where
  "first_index P [] = None"
| "first_index P (x # xs) = (if P x then Some 0 else map_option Suc (first_index P xs))"

definition find_person_by_id :: "state \<Rightarrow> string \<Rightarrow> nat option" where
  "find_person_by_id s pid = first_index (\<lambda>p. p_id p = pid) (personnel s)"

definition get_leaves_for_person :: "state \<Rightarrow> string \<Rightarrow> leave list" where
  "get_leaves_for_person s pid = filter (\<lambda>l. personnel_id l = pid) (leaves s)"

section \<open>The pages (lines 143--328)\<close>

text \<open>
  The world of a script run: the AppState kept in \<open>st.session_state.state\<close> and the file
  \<open>DATA_FILE\<close>. \<open>save_state\<close> above gives the new content of the file.
  A page either raises (\<open>Inl\<close>) or ends with what it showed (\<open>Inr\<close>); in both cases the
  world it leaves behind is returned, since the state is mutated in place.
\<close>

record world =
  session :: state
  data_file :: "file_content option"

datatype message =
    Rendered \<comment> \<open>no form submitted\<close>
  | NoPersonnelWarning \<comment> \<open>st.warning, line 269\<close>
  | RequiredFields \<comment> \<open>st.error, line 242\<close>
  | EndBeforeStart \<comment> \<open>st.error, line 306\<close>
  | PersonnelSaved \<comment> \<open>st.success, line 261\<close>
  | LeaveLaunched \<comment> \<open>st.success, line 327\<close>

text \<open>The dashboard's loop over \<open>state.leaves\<close> (lines 147--152), \<open>hoje\<close> being
  \<open>date.today().isoformat()\<close>.\<close>

fun count_em_ferias :: "string \<Rightarrow> leave list \<Rightarrow> nat \<Rightarrow> nat" where
  "count_em_ferias hoje [] em_ferias = em_ferias"
| "count_em_ferias hoje (l # ls) em_ferias =
     count_em_ferias hoje ls
       (if l_type l = LeaveType_value FERIAS \<and> str_le (startDate l) hoje \<and> str_le hoje (endDate l)
        then em_ferias + 1 else em_ferias)"

text \<open>The two metrics of \<open>page_dashboard\<close>: \<open>total\<close> and \<open>em_ferias\<close>.\<close>

definition page_dashboard :: "state \<Rightarrow> date \<Rightarrow> nat \<times> nat" where
  "page_dashboard s today =
     (length (personnel s), count_em_ferias (isoformat today) (leaves s) 0)"

text \<open>The form \<open>novo_militar\<close>: the values of its widgets when the script runs. The number
  inputs are declared with \<open>min_value=1\<close> (ant) and \<open>min_value=0\<close> (the two balances), the
  select boxes offer the values of \<open>Rank\<close> and \<open>UserRole\<close>.\<close>

record personnel_form =
  nome_in :: string
  matr_in :: string
  ant_in :: int
  grad_in :: string
  quadro_in :: string
  unid_in :: string
  secao_in :: string
  situacao_in :: string
  esc_in :: string
  saldo_ferias :: int
  saldo_abono :: int
  role_in :: string
  submitted :: bool

definition widgets_ok_P :: "personnel_form \<Rightarrow> bool" where
  "widgets_ok_P f = (1 \<le> ant_in f \<and> 0 \<le> saldo_ferias f \<and> 0 \<le> saldo_abono f
     \<and> grad_in f \<in> set Rank_values \<and> role_in f \<in> set UserRole_values)"

definition page_personnel :: "personnel_form \<Rightarrow> world \<Rightarrow> message \<times> world" where
  "page_personnel f w =
     (if \<not> submitted f then (Rendered, w)
      else if nome_in f = [] \<or> matr_in f = [] then (RequiredFields, w)
      else
        let s = session w;
            new = \<lparr>p_id = generate_id ''P'' (personnel s), ant = ant_in f, grad = grad_in f,
              quadro = quadro_in f, nome = nome_in f, matr = matr_in f, unid = unid_in f,
              secao = secao_in f, situacao = situacao_in f, esc = esc_in f,
              saldoFerias = saldo_ferias f, saldoAbono = saldo_abono f, role = role_in f\<rparr>;
            s' = s\<lparr>personnel := personnel s @ [new]\<rparr>
        in (PersonnelSaved, \<lparr>session = s', data_file = save_state s'\<rparr>))"

text \<open>The widgets of \<open>page_leaves\<close>: the label chosen in the select box of the personnel and
  the form \<open>novo_afastamento\<close>.\<close>

record leave_form =
  label :: string
  tipo :: string
  start :: date
  end' :: date
  desc :: string
  enviar :: bool

definition options :: "state \<Rightarrow> (string \<times> string) list" where
  "options s = map (\<lambda>p. (nome p @ '' ('' @ grad p @ '' - '' @ matr p @ '')'', p_id p)) (personnel s)"

text \<open>Lines 320--324, the update of the balances of \<open>person\<close>: two independent
  \<open>if\<close> statements.\<close>

definition adjust_balances :: "string \<Rightarrow> int \<Rightarrow> person \<Rightarrow> person" where
  "adjust_balances tipo_v days person =
     (let person1 = (if tipo_v = LeaveType_value FERIAS
            then person\<lparr>saldoFerias := max 0 (saldoFerias person - days)\<rparr> else person)
      in if tipo_v = LeaveType_value ABONO
         then person1\<lparr>saldoAbono := max 0 (saldoAbono person1 - days)\<rparr> else person1)"

text \<open>Lines 308--316, the record of the new leave for the person at position \<open>i\<close>.\<close>

definition new_leave_of :: "leave_form \<Rightarrow> string \<Rightarrow> state \<Rightarrow> nat \<Rightarrow> leave" where
  "new_leave_of f now s i = \<lparr>l_id = generate_id ''L'' (leaves s),
     personnel_id = p_id (personnel s ! i), l_type = tipo f, startDate = isoformat (start f),
     endDate = isoformat (end' f), description = desc f, createdAt = now\<rparr>"

text \<open>Lines 278--328, from \<open>person = find_person_by_id(state, selected_id)\<close> on. The first
  attribute access on \<open>person\<close> (line 281) raises \<open>AttributeError\<close> when it is \<open>None\<close>.
  \<open>now\<close> is \<open>datetime.now().isoformat()\<close>.\<close>

definition page_leaves_selected ::
  "leave_form \<Rightarrow> string \<Rightarrow> string \<Rightarrow> world \<Rightarrow> (py_error + message) \<times> world" where
  "page_leaves_selected f now selected_id w =
     (let s = session w in
      case find_person_by_id s selected_id of
        None \<Rightarrow> (Inl AttributeError, w)
      | Some i \<Rightarrow>
          if \<not> enviar f then (Inr Rendered, w)
          else if date_less (end' f) (start f) then (Inr EndBeforeStart, w)
          else
            let person = personnel s ! i;
                new_leave = new_leave_of f now s i;
                leaves' = leaves s @ [new_leave];
                days = toordinal (end' f) - toordinal (start f) + 1;
                s' = \<lparr>personnel = (personnel s)[i := adjust_balances (tipo f) days person],
                  leaves = leaves'\<rparr>
            in (Inr LeaveLaunched, \<lparr>session = s', data_file = save_state s'\<rparr>))"

text \<open>Lines 268--277: the guard on an empty personnel list, the select box and
  \<open>options[label]\<close>, which raises \<open>KeyError\<close> for a label that is not a key.\<close>

definition page_leaves :: "leave_form \<Rightarrow> string \<Rightarrow> world \<Rightarrow> (py_error + message) \<times> world" where
  "page_leaves f now w =
     (if personnel (session w) = [] then (Inr NoPersonnelWarning, w)
      else case dict_get (options (session w)) (label f) of
        None \<Rightarrow> (Inl KeyError, w)
      | Some selected_id \<Rightarrow> page_leaves_selected f now selected_id w)"

section \<open>The leave page on the objects a file gives (lines 268--281)\<close>












section \<open>Reachable worlds\<close>

text \<open>
  \<open>main\<close> (lines 373--399): a session starts by loading the file, then every script run
  shows one page. A first session finds no file. The values of the form \<open>novo_militar\<close>
  are those its widgets can return; the values of the leave page are left free. A later session
  loads what the earlier runs saved.
\<close>

inductive reachable :: "world \<Rightarrow> bool" where
  first_session: "load_state None = Inr (obj_state s)
     \<Longrightarrow> reachable \<lparr>session = s, data_file = None\<rparr>"
| efetivo: "reachable w \<Longrightarrow> widgets_ok_P f \<Longrightarrow> reachable (snd (page_personnel f w))"
| afastamentos: "reachable w \<Longrightarrow> reachable (snd (page_leaves f now w))"
| new_session: "reachable w \<Longrightarrow> load_state (data_file w) = Inr (obj_state s)
     \<Longrightarrow> reachable (w\<lparr>session := s\<rparr>)"

section \<open>Properties stated by the specification\<close>

text \<open>Both balances of every Personnel are non-negative.\<close>

definition balances_ok :: "state \<Rightarrow> bool" where
  "balances_ok s = list_all (\<lambda>p. 0 \<le> saldoFerias p \<and> 0 \<le> saldoAbono p) (personnel s)"

text \<open>The identifiers a collection of \<open>n\<close> entities has when the \<open>k\<close>-th one created got
  the prefix followed by \<open>k\<close>.\<close>

definition ids_upto :: "string \<Rightarrow> nat \<Rightarrow> string list" where
  "ids_upto prefix n = map (\<lambda>k. prefix @ str_nat (Suc k)) [0..<n]"

definition ids_ok :: "state \<Rightarrow> bool" where
  "ids_ok s = (map p_id (personnel s) = ids_upto ''P'' (length (personnel s))
     \<and> map l_id (leaves s) = ids_upto ''L'' (length (leaves s)))"

text \<open>A JSON value that is an object with exactly the given field names.\<close>

fun is_entity :: "string list \<Rightarrow> json \<Rightarrow> bool" where
  "is_entity names (JObj kvs) = (set (map fst kvs) = set names)"
| "is_entity names _ = False"

text \<open>
  \<open>personnelOnLeaveToday\<close> as the specification words it: the number of distinct
  identifiers of Personnel that own a leave record of type \<open>FERIAS\<close> whose range contains
  today. To be compared with \<open>page_dashboard\<close>.
\<close>

definition personnelOnLeaveToday_spec :: "state \<Rightarrow> date \<Rightarrow> nat" where
  "personnelOnLeaveToday_spec s today =
     length (remdups (map p_id (filter (\<lambda>p. list_ex (\<lambda>l. personnel_id l = p_id p
        \<and> l_type l = LeaveType_value FERIAS \<and> str_le (startDate l) (isoformat today)
        \<and> str_le (isoformat today) (endDate l)) (leaves s)) (personnel s))))"

text \<open>The value of a decimal rendering, used to show that \<open>str_nat\<close> is injective.\<close>

definition digit_val :: "char \<Rightarrow> nat" where
  "digit_val c = length (takeWhile (\<lambda>d. d \<noteq> c) ''0123456789'')"

definition nat_of_str :: "string \<Rightarrow> nat" where
  "nat_of_str cs = foldl (\<lambda>acc c. 10 * acc + digit_val c) 0 cs"


section \<open>Example inputs\<close>

text \<open>The example of the specification: Maria Silva, registration number 12345, 30 days of
  vacation, and a vacation from 2024-01-01 to 2024-01-10.\<close>

definition maria_form :: personnel_form where
  "maria_form = \<lparr>nome_in = ''Maria Silva'', matr_in = ''12345'', ant_in = 1, grad_in = ''CAP'',
     quadro_in = ''QOPM'', unid_in = ''DLF'', secao_in = ''SAD'', situacao_in = ''ATIVO'',
     esc_in = ''EXP'', saldo_ferias = 30, saldo_abono = 5, role_in = ''USER'', submitted = True\<rparr>"

definition world0 :: world where
  "world0 = \<lparr>session = default_state, data_file = None\<rparr>"

definition world1 :: world where
  "world1 = snd (page_personnel maria_form world0)"

definition ferias_form :: leave_form where
  "ferias_form = \<lparr>label = ''Maria Silva (CAP - 12345)'', tipo = LeaveType_value FERIAS,
     start = \<lparr>year = 2024, month = 1, day = 1\<rparr>, end' = \<lparr>year = 2024, month = 1, day = 10\<rparr>,
     desc = [], enviar = True\<rparr>"

definition now0 :: string where
  "now0 = ''2024-01-01T08:00:00''"

definition world2 :: world where
  "world2 = snd (page_leaves ferias_form now0 world1)"

text \<open>The same form with the two dates exchanged; a second registration.\<close>

definition backwards_form :: leave_form where
  "backwards_form = ferias_form\<lparr>start := \<lparr>year = 2024, month = 1, day = 10\<rparr>,
     end' := \<lparr>year = 2024, month = 1, day = 1\<rparr>\<rparr>"

definition world1b :: world where
  "world1b = snd (page_personnel maria_form world1)"

text \<open>A second vacation of the same person, from 2024-01-05 to 2024-01-08, and a day inside
  both vacations.\<close>

definition ferias_form2 :: leave_form where
  "ferias_form2 = ferias_form\<lparr>start := \<lparr>year = 2024, month = 1, day = 5\<rparr>,
     end' := \<lparr>year = 2024, month = 1, day = 8\<rparr>\<rparr>"

definition world3 :: world where
  "world3 = snd (page_leaves ferias_form2 ''2024-01-02T09:30:00'' world2)"

definition today0 :: date where
  "today0 = \<lparr>year = 2024, month = 1, day = 6\<rparr>"

text \<open>A file with one Personnel whose vacation balance is negative, and the state it holds.\<close>

definition negative_doc :: json where
  "negative_doc = JObj [(''personnel'', JArr [JObj [(''id'', JStr ''P1''), (''ant'', JInt 1),
     (''grad'', JStr ''CAP''), (''quadro'', JStr ''QOPM''), (''nome'', JStr ''Maria Silva''),
     (''matr'', JStr ''12345''), (''unid'', JStr ''DLF''), (''secao'', JStr ''SAD''),
     (''situacao'', JStr ''ATIVO''), (''esc'', JStr ''EXP''), (''saldoFerias'', JInt (- 5)),
     (''saldoAbono'', JInt 5), (''role'', JStr ''USER'')]]), (''leaves'', JArr [])]"

definition negative_state :: state where
  "negative_state = \<lparr>personnel = [\<lparr>p_id = ''P1'', ant = 1, grad = ''CAP'', quadro = ''QOPM'',
     nome = ''Maria Silva'', matr = ''12345'', unid = ''DLF'', secao = ''SAD'',
     situacao = ''ATIVO'', esc = ''EXP'', saldoFerias = - 5, saldoAbono = 5, role = ''USER''\<rparr>],
     leaves = []\<rparr>"

text \<open>A file whose only Personnel has a text as vacation balance, a number as role and a rank
  that is no value of \<open>Rank\<close>, next to a top-level member the program does not know; and a
  leave of an unknown type that ends before it starts.\<close>

definition odd_person :: json where
  "odd_person = JObj [(''id'', JStr ''P1''), (''ant'', JInt 1),
     (''grad'', JStr ''GENERAL''), (''quadro'', JStr ''QOPM''), (''nome'', JStr ''Maria Silva''),
     (''matr'', JStr ''12345''), (''unid'', JStr ''DLF''), (''secao'', JStr ''SAD''),
     (''situacao'', JStr ''ATIVO''), (''esc'', JStr ''EXP''), (''saldoFerias'', JStr ''trinta''),
     (''saldoAbono'', JInt 5), (''role'', JInt 7)]"

definition odd_leave :: json where
  "odd_leave = JObj [(''id'', JStr ''L1''), (''personnel_id'', JStr ''P1''),
     (''type'', JStr ''FOLGA''), (''startDate'', JStr ''2024-02-10''),
     (''endDate'', JStr ''2024-02-01''), (''description'', JStr []),
     (''createdAt'', JStr ''2024-02-01T10:00:00'')]"

definition odd_doc :: json where
  "odd_doc = JObj [(''version'', JInt 2), (''personnel'', JArr [odd_person])]"




section \<open>Round trip of the snapshot\<close>

lemma Personnel_kw_asdict: "Personnel_kw (asdict_P p) = Inr (obj_P p)"
  by (simp add: asdict_P_def obj_P_def dict_get_def Personnel_fields_def)

lemma LeaveRecord_kw_asdict: "LeaveRecord_kw (asdict_L l) = Inr (obj_L l)"
  by (simp add: asdict_L_def obj_L_def dict_get_def LeaveRecord_fields_def)

lemma comprehension_Personnel: "comprehension Personnel_kw (map asdict_P ps) = Inr (map obj_P ps)"
  by (induction ps) (simp_all add: Personnel_kw_asdict)

lemma comprehension_LeaveRecord: "comprehension LeaveRecord_kw (map asdict_L ls) = Inr (map obj_L ls)"
  by (induction ls) (simp_all add: LeaveRecord_kw_asdict)

lemma typed_obj_P: "typed_P (obj_P p) = Some p"
  by (simp add: typed_P_def obj_P_def)

lemma typed_obj_L: "typed_L (obj_L l) = Some l"
  by (simp add: typed_L_def obj_L_def)

lemma those_map_obj_P: "those_map typed_P (map obj_P ps) = Some ps"
  by (induction ps) (simp_all add: typed_obj_P)

lemma those_map_obj_L: "those_map typed_L (map obj_L ls) = Some ls"
  by (induction ls) (simp_all add: typed_obj_L)

lemma typed_obj_state: "typed_state (obj_state s) = Some s"
  by (simp add: typed_state_def obj_state_def those_map_obj_P those_map_obj_L)

lemma load_save: "load_state (save_state s) = Inr (obj_state s)"
  by (simp add: save_state_def dict_get_def obj_state_def comprehension_Personnel
      comprehension_LeaveRecord)

text \<open>
  Claim C6. Saving a state and loading the file gives back the same state: \<open>load_state\<close>
  returns the objects whose attributes hold the values of every field of every Personnel and
  LeaveRecord, both lists in their order, and these objects determine the state.
\<close>

theorem save_load_roundtrip:
  "load_state (save_state s) = Inr (obj_state s) \<and> typed_state (obj_state s) = Some s"
  by (simp add: load_save typed_obj_state)

section \<open>The leave page\<close>

lemma first_index_SomeD: "first_index P xs = Some i \<Longrightarrow> i < length xs \<and> P (xs ! i)"
  by (induction xs arbitrary: i) (auto split: if_splits)

lemma first_index_None_iff: "first_index P xs = None \<longleftrightarrow> (\<forall>x\<in>set xs. \<not> P x)"
  by (induction xs) auto

lemma first_index_update:
  "first_index P xs = Some i \<Longrightarrow> P y \<Longrightarrow> first_index P (xs[i := y]) = Some i"
  by (induction xs arbitrary: i) (auto split: if_splits)

lemma dict_get_options:
  "dict_get (options s) l = Some pid \<Longrightarrow> pid \<in> p_id ` set (personnel s)"
  by (auto simp: dict_get_def options_def dest!: map_of_SomeD)

lemma find_person_by_id_None_iff:
  "find_person_by_id s pid = None \<longleftrightarrow> pid \<notin> p_id ` set (personnel s)"
  by (auto simp: find_person_by_id_def first_index_None_iff)

lemma p_id_adjust_balances [simp]: "p_id (adjust_balances t d p) = p_id p"
  by (simp add: adjust_balances_def Let_def)

lemma page_leaves_selected_LaunchedD:
  assumes "page_leaves_selected f now pid w = (Inr LeaveLaunched, w')"
  shows "\<exists>i. find_person_by_id (session w) pid = Some i \<and> enviar f \<and> \<not> date_less (end' f) (start f)
     \<and> session w' = \<lparr>personnel = (personnel (session w))[i :=
           adjust_balances (tipo f) (toordinal (end' f) - toordinal (start f) + 1)
             (personnel (session w) ! i)],
         leaves = leaves (session w) @ [new_leave_of f now (session w) i]\<rparr>
     \<and> data_file w' = save_state (session w')"
  using assms
  by (auto simp: page_leaves_selected_def Let_def new_leave_of_def split: option.splits if_splits)

lemma page_leaves_LaunchedD:
  assumes "page_leaves f now w = (Inr LeaveLaunched, w')"
  shows "\<exists>pid. dict_get (options (session w)) (label f) = Some pid
     \<and> page_leaves_selected f now pid w = (Inr LeaveLaunched, w')"
  using assms by (auto simp: page_leaves_def split: option.splits if_splits)

text \<open>
  Claim C1. When the leave page launches a leave, the person the select box resolved to (the
  owner recorded in the new leave, found at the same position before and after) has, with
  \<open>days\<close> the difference of the two dates in days plus one: for the type FERIAS the
  vacation balance \<open>max 0 (before - days)\<close>, for the type ABONO the abono balance
  \<open>max 0 (before - days)\<close>, and for every other type both balances as before.
\<close>

theorem logLeave_adjusts_balance:
  assumes "page_leaves f now w = (Inr LeaveLaunched, w')"
  shows "\<exists>pid i. dict_get (options (session w)) (label f) = Some pid
     \<and> find_person_by_id (session w) pid = Some i
     \<and> find_person_by_id (session w') pid = Some i
     \<and> personnel_id (last (leaves (session w'))) = pid
     \<and> (let days = toordinal (end' f) - toordinal (start f) + 1;
             before = personnel (session w) ! i;
             after = personnel (session w') ! i
         in (tipo f = LeaveType_value FERIAS \<longrightarrow>
               saldoFerias after = max 0 (saldoFerias before - days)
               \<and> saldoAbono after = saldoAbono before)
          \<and> (tipo f = LeaveType_value ABONO \<longrightarrow>
               saldoAbono after = max 0 (saldoAbono before - days)
               \<and> saldoFerias after = saldoFerias before)
          \<and> (tipo f \<noteq> LeaveType_value FERIAS \<and> tipo f \<noteq> LeaveType_value ABONO \<longrightarrow>
               saldoFerias after = saldoFerias before \<and> saldoAbono after = saldoAbono before))"
proof -
  from page_leaves_LaunchedD [OF assms] obtain pid where
    pid: "dict_get (options (session w)) (label f) = Some pid"
    and sel: "page_leaves_selected f now pid w = (Inr LeaveLaunched, w')"
    by blast
  from page_leaves_selected_LaunchedD [OF sel] obtain i where
    i: "find_person_by_id (session w) pid = Some i"
    and s': "session w' = \<lparr>personnel = (personnel (session w))[i :=
           adjust_balances (tipo f) (toordinal (end' f) - toordinal (start f) + 1)
             (personnel (session w) ! i)],
         leaves = leaves (session w) @ [new_leave_of f now (session w) i]\<rparr>"
    by blast
  from i have bound: "i < length (personnel (session w))"
    and at_i: "p_id (personnel (session w) ! i) = pid"
    by (auto simp: find_person_by_id_def dest: first_index_SomeD)
  have i': "find_person_by_id (session w') pid = Some i"
    using i at_i by (simp add: s' find_person_by_id_def first_index_update)
  have owner: "personnel_id (last (leaves (session w'))) = pid"
    by (simp add: s' new_leave_of_def at_i)
  have after: "personnel (session w') ! i =
      adjust_balances (tipo f) (toordinal (end' f) - toordinal (start f) + 1)
        (personnel (session w) ! i)"
    using bound by (simp add: s')
  have neq: "LeaveType_value FERIAS \<noteq> LeaveType_value ABONO"
    by simp
  show ?thesis
    using pid i i' owner neq by (simp add: after adjust_balances_def Let_def)
qed

theorem logLeave_adjusts_balance_witness:
  "page_leaves ferias_form now0 world1 = (Inr LeaveLaunched, world2)
   \<and> (\<exists>i. find_person_by_id (session world2) ''P1'' = Some i
        \<and> saldoFerias (personnel (session world2) ! i) = 20)"
proof -
  have h: "page_leaves ferias_form now0 world1 = (Inr LeaveLaunched, world2)"
    by code_simp
  from logLeave_adjusts_balance [OF h] obtain pid i where
    pid: "dict_get (options (session world1)) (label ferias_form) = Some pid"
    and i: "find_person_by_id (session world1) pid = Some i"
    and i': "find_person_by_id (session world2) pid = Some i"
    and bal: "let days = toordinal (end' ferias_form) - toordinal (start ferias_form) + 1;
                  before = personnel (session world1) ! i;
                  after = personnel (session world2) ! i
              in tipo ferias_form = LeaveType_value FERIAS \<longrightarrow>
                 saldoFerias after = max 0 (saldoFerias before - days)"
    unfolding Let_def by blast
  have "dict_get (options (session world1)) (label ferias_form) = Some ''P1''"
    by code_simp
  with pid have pid_eq: "pid = ''P1''"
    by simp
  have "find_person_by_id (session world1) ''P1'' = Some 0"
    by code_simp
  with i pid_eq have i_eq: "i = 0"
    by simp
  have t: "tipo ferias_form = LeaveType_value FERIAS"
    by (simp add: ferias_form_def)
  have v: "max 0 (saldoFerias (personnel (session world1) ! 0)
      - (toordinal (end' ferias_form) - toordinal (start ferias_form) + 1)) = 20"
    by code_simp
  from bal t v have "saldoFerias (personnel (session world2) ! i) = 20"
    by (simp add: Let_def i_eq)
  with h i' pid_eq show ?thesis
    by blast
qed

lemma dict_get_None_iff: "dict_get kvs k = None \<longleftrightarrow> k \<notin> fst ` set kvs"
  by (simp add: dict_get_def map_of_eq_None_iff)

lemma selected_id_found:
  "dict_get (options s) l = Some pid \<Longrightarrow> \<exists>i. find_person_by_id s pid = Some i"
  using dict_get_options [of s l pid] find_person_by_id_None_iff [of s pid]
  by (cases "find_person_by_id s pid") auto

lemma page_leaves_selected_end_before_start:
  "find_person_by_id (session w) pid = Some i \<Longrightarrow> enviar f \<Longrightarrow> date_less (end' f) (start f)
   \<Longrightarrow> page_leaves_selected f now pid w = (Inr EndBeforeStart, w)"
  by (simp add: page_leaves_selected_def)

lemma page_leaves_selected_unchanged:
  "date_less (end' f) (start f) \<Longrightarrow> snd (page_leaves_selected f now pid w) = w"
  by (simp add: page_leaves_selected_def Let_def split: option.splits)

lemma adjust_balances_other_fields:
  "adjust_balances t d p = p\<lparr>saldoFerias := saldoFerias (adjust_balances t d p),
     saldoAbono := saldoAbono (adjust_balances t d p)\<rparr>"
  by (simp add: adjust_balances_def Let_def)

lemma adjust_balances_saldoFerias:
  "t \<noteq> LeaveType_value FERIAS \<Longrightarrow> saldoFerias (adjust_balances t d p) = saldoFerias p"
  by (simp add: adjust_balances_def Let_def)

lemma adjust_balances_saldoAbono:
  "t \<noteq> LeaveType_value ABONO \<Longrightarrow> saldoAbono (adjust_balances t d p) = saldoAbono p"
  by (simp add: adjust_balances_def Let_def)

lemma page_personnel_SavedD:
  assumes "page_personnel g w = (PersonnelSaved, w')"
  shows "\<exists>new. session w' = (session w)\<lparr>personnel := personnel (session w) @ [new]\<rparr>
     \<and> p_id new = generate_id ''P'' (personnel (session w))
     \<and> saldoFerias new = saldo_ferias g \<and> saldoAbono new = saldo_abono g
     \<and> data_file w' = save_state (session w')"
  using assms by (auto simp: page_personnel_def Let_def split: if_splits)

text \<open>
  Claim C3. When the end date is before the start date, the leave page changes nothing: the
  leave list, every Personnel and the file are as before. When the form was submitted for a
  person of the select box, the page ends with the error message of line 306.
\<close>

theorem logLeave_end_before_start:
  assumes "date_less (end' f) (start f)"
  shows "snd (page_leaves f now w) = w
     \<and> (enviar f \<and> personnel (session w) \<noteq> [] \<and> label f \<in> fst ` set (options (session w))
          \<longrightarrow> fst (page_leaves f now w) = Inr EndBeforeStart)"
proof
  show "snd (page_leaves f now w) = w"
    using assms by (simp add: page_leaves_def page_leaves_selected_unchanged split: option.splits)
next
  show "enviar f \<and> personnel (session w) \<noteq> [] \<and> label f \<in> fst ` set (options (session w))
          \<longrightarrow> fst (page_leaves f now w) = Inr EndBeforeStart"
  proof
    assume a: "enviar f \<and> personnel (session w) \<noteq> [] \<and> label f \<in> fst ` set (options (session w))"
    then obtain pid where pid: "dict_get (options (session w)) (label f) = Some pid"
      using dict_get_None_iff [of "options (session w)" "label f"] by auto
    from selected_id_found [OF pid] obtain i where "find_person_by_id (session w) pid = Some i"
      by blast
    then have "page_leaves_selected f now pid w = (Inr EndBeforeStart, w)"
      using a assms by (simp add: page_leaves_selected_end_before_start)
    with a pid show "fst (page_leaves f now w) = Inr EndBeforeStart"
      by (simp add: page_leaves_def)
  qed
qed

theorem logLeave_end_before_start_witness:
  "date_less (end' backwards_form) (start backwards_form)
   \<and> page_leaves backwards_form now0 world1 = (Inr EndBeforeStart, world1)"
proof -
  have h: "date_less (end' backwards_form) (start backwards_form)"
    by code_simp
  have a: "enviar backwards_form \<and> personnel (session world1) \<noteq> []
      \<and> label backwards_form \<in> fst ` set (options (session world1))"
    by code_simp
  from logLeave_end_before_start [OF h, of now0 world1] a
  have "snd (page_leaves backwards_form now0 world1) = world1"
    and "fst (page_leaves backwards_form now0 world1) = Inr EndBeforeStart"
    by blast+
  then have "page_leaves backwards_form now0 world1 = (Inr EndBeforeStart, world1)"
    by (simp add: prod_eq_iff)
  with h show ?thesis
    by blast
qed











text \<open>
  Claim C10. A launched leave keeps the length of the personnel list and every Personnel at
  another position; the person at the resolved position keeps every field but the two
  balances, keeps the vacation balance unless the type is FERIAS and the abono balance unless
  the type is ABONO. A saved registration keeps the leave list and every Personnel that was
  there, and adds one at the end.
\<close>

theorem frame_of_the_mutations:
  "(page_leaves f now w = (Inr LeaveLaunched, w') \<longrightarrow>
      (\<exists>pid i. dict_get (options (session w)) (label f) = Some pid
         \<and> find_person_by_id (session w) pid = Some i
         \<and> length (personnel (session w')) = length (personnel (session w))
         \<and> (\<forall>j. j \<noteq> i \<longrightarrow> personnel (session w') ! j = personnel (session w) ! j)
         \<and> personnel (session w') ! i = (personnel (session w) ! i)
              \<lparr>saldoFerias := saldoFerias (personnel (session w') ! i),
               saldoAbono := saldoAbono (personnel (session w') ! i)\<rparr>
         \<and> (tipo f \<noteq> LeaveType_value FERIAS \<longrightarrow>
              saldoFerias (personnel (session w') ! i) = saldoFerias (personnel (session w) ! i))
         \<and> (tipo f \<noteq> LeaveType_value ABONO \<longrightarrow>
              saldoAbono (personnel (session w') ! i) = saldoAbono (personnel (session w) ! i))))
   \<and> (page_personnel g w = (PersonnelSaved, w'') \<longrightarrow>
        leaves (session w'') = leaves (session w)
        \<and> length (personnel (session w'')) = Suc (length (personnel (session w)))
        \<and> take (length (personnel (session w))) (personnel (session w'')) = personnel (session w))"
proof (intro conjI impI)
  assume a: "page_leaves f now w = (Inr LeaveLaunched, w')"
  from page_leaves_LaunchedD [OF a] obtain pid where
    pid: "dict_get (options (session w)) (label f) = Some pid"
    and sel: "page_leaves_selected f now pid w = (Inr LeaveLaunched, w')"
    by blast
  from page_leaves_selected_LaunchedD [OF sel] obtain i where
    i: "find_person_by_id (session w) pid = Some i"
    and s': "session w' = \<lparr>personnel = (personnel (session w))[i :=
           adjust_balances (tipo f) (toordinal (end' f) - toordinal (start f) + 1)
             (personnel (session w) ! i)],
         leaves = leaves (session w) @ [new_leave_of f now (session w) i]\<rparr>"
    by blast
  from i have bound: "i < length (personnel (session w))"
    by (auto simp: find_person_by_id_def dest: first_index_SomeD)
  have after: "personnel (session w') ! i =
      adjust_balances (tipo f) (toordinal (end' f) - toordinal (start f) + 1)
        (personnel (session w) ! i)"
    using bound by (simp add: s')
  have others: "\<forall>j. j \<noteq> i \<longrightarrow> personnel (session w') ! j = personnel (session w) ! j"
    by (simp add: s')
  have len: "length (personnel (session w')) = length (personnel (session w))"
    by (simp add: s')
  show "\<exists>pid i. dict_get (options (session w)) (label f) = Some pid
         \<and> find_person_by_id (session w) pid = Some i
         \<and> length (personnel (session w')) = length (personnel (session w))
         \<and> (\<forall>j. j \<noteq> i \<longrightarrow> personnel (session w') ! j = personnel (session w) ! j)
         \<and> personnel (session w') ! i = (personnel (session w) ! i)
              \<lparr>saldoFerias := saldoFerias (personnel (session w') ! i),
               saldoAbono := saldoAbono (personnel (session w') ! i)\<rparr>
         \<and> (tipo f \<noteq> LeaveType_value FERIAS \<longrightarrow>
              saldoFerias (personnel (session w') ! i) = saldoFerias (personnel (session w) ! i))
         \<and> (tipo f \<noteq> LeaveType_value ABONO \<longrightarrow>
              saldoAbono (personnel (session w') ! i) = saldoAbono (personnel (session w) ! i))"
    apply (rule exI [of _ pid], rule exI [of _ i])
    apply (intro conjI)
    apply (rule pid)
    apply (rule i)
    apply (rule len)
    apply (rule others)
    apply (simp only: after)
    apply (rule adjust_balances_other_fields)
    apply (simp add: after adjust_balances_saldoFerias)
    apply (simp add: after adjust_balances_saldoAbono)
    done
next
  assume b: "page_personnel g w = (PersonnelSaved, w'')"
  from page_personnel_SavedD [OF b] obtain new where
    s'': "session w'' = (session w)\<lparr>personnel := personnel (session w) @ [new]\<rparr>"
    by blast
  show "leaves (session w'') = leaves (session w)"
    by (simp add: s'')
  show "length (personnel (session w'')) = Suc (length (personnel (session w)))"
    by (simp add: s'')
  show "take (length (personnel (session w))) (personnel (session w'')) = personnel (session w)"
    by (simp add: s'')
qed

theorem frame_of_the_mutations_witness:
  "page_leaves ferias_form now0 world1 = (Inr LeaveLaunched, world2)
   \<and> page_personnel maria_form world1 = (PersonnelSaved, world1b)
   \<and> length (personnel (session world2)) = length (personnel (session world1))
   \<and> leaves (session world1b) = leaves (session world1)
   \<and> take (length (personnel (session world1))) (personnel (session world1b))
       = personnel (session world1)"
proof -
  have h1: "page_leaves ferias_form now0 world1 = (Inr LeaveLaunched, world2)"
    by code_simp
  have h2: "page_personnel maria_form world1 = (PersonnelSaved, world1b)"
    by code_simp
  from frame_of_the_mutations [of ferias_form now0 world1 world2 maria_form world1b] h1 h2
  show ?thesis
    by blast
qed

section \<open>Reachable worlds: the file, the identifiers, the balances\<close>

lemma obj_state_inj: "obj_state s = obj_state t \<Longrightarrow> s = t"
  by (metis typed_obj_state option.inject)

lemma obj_state_default: "obj_state default_state = default_state"
  by (simp add: obj_state_def default_state_def)

lemma first_session_state: "load_state None = Inr (obj_state s) \<Longrightarrow> s = default_state"
  using obj_state_inj [of default_state s] by (simp add: obj_state_default)

lemma page_personnel_cases:
  "snd (page_personnel g w) = w \<or> fst (page_personnel g w) = PersonnelSaved"
  by (simp add: page_personnel_def Let_def)

lemma page_leaves_cases:
  "snd (page_leaves f now w) = w \<or> fst (page_leaves f now w) = Inr LeaveLaunched"
  by (simp add: page_leaves_def page_leaves_selected_def Let_def split: option.splits)

lemma reachable_file:
  "reachable w \<Longrightarrow> load_state (data_file w) = Inr (obj_state (session w))"
proof (induction rule: reachable.induct)
  case (first_session s)
  then show ?case by simp
next
  case (efetivo w g)
  show ?case
  proof (cases "snd (page_personnel g w) = w")
    case True
    with efetivo show ?thesis by simp
  next
    case False
    with page_personnel_cases [of g w]
    have "page_personnel g w = (PersonnelSaved, snd (page_personnel g w))"
      by (simp add: prod_eq_iff)
    from page_personnel_SavedD [OF this] show ?thesis
      by (auto simp: load_save)
  qed
next
  case (afastamentos w f now)
  show ?case
  proof (cases "snd (page_leaves f now w) = w")
    case True
    with afastamentos show ?thesis by simp
  next
    case False
    with page_leaves_cases [of f now w]
    have a: "page_leaves f now w = (Inr LeaveLaunched, snd (page_leaves f now w))"
      by (simp add: prod_eq_iff)
    from page_leaves_LaunchedD [OF a] obtain pid where
      "page_leaves_selected f now pid w = (Inr LeaveLaunched, snd (page_leaves f now w))"
      by blast
    from page_leaves_selected_LaunchedD [OF this] show ?thesis
      by (auto simp: load_save)
  qed
next
  case (new_session w s)
  then show ?case by simp
qed

lemma new_session_state:
  "reachable w \<Longrightarrow> load_state (data_file w) = Inr (obj_state s) \<Longrightarrow> s = session w"
  using reachable_file [of w] obj_state_inj [of s "session w"] by simp

lemma digit_val_digit_char: "d < 10 \<Longrightarrow> digit_val (digit_char d) = d"
proof -
  assume "d < 10"
  then have "d = 0 \<or> d = 1 \<or> d = 2 \<or> d = 3 \<or> d = 4 \<or> d = 5 \<or> d = 6 \<or> d = 7 \<or> d = 8 \<or> d = 9"
    by arith
  then show ?thesis
    by (auto simp: digit_val_def digit_char_def)
qed

lemma nat_of_str_snoc: "nat_of_str (cs @ [c]) = 10 * nat_of_str cs + digit_val c"
  by (simp add: nat_of_str_def)

lemma nat_of_str_str_nat: "nat_of_str (str_nat n) = n"
proof (induction n rule: str_nat.induct)
  case (1 n)
  show ?case
  proof (cases "n < 10")
    case True
    then have "str_nat n = [digit_char n]"
      by (subst str_nat.simps) simp
    with True show ?thesis
      by (simp add: nat_of_str_def digit_val_digit_char)
  next
    case False
    then have "str_nat n = str_nat (n div 10) @ [digit_char (n mod 10)]"
      by (subst str_nat.simps) simp
    with False "1.IH" show ?thesis
      by (simp add: nat_of_str_snoc digit_val_digit_char)
  qed
qed

lemma str_nat_inj: "str_nat m = str_nat n \<Longrightarrow> m = n"
  by (metis nat_of_str_str_nat)

lemma ids_upto_Suc: "ids_upto p (Suc n) = ids_upto p n @ [p @ str_nat (Suc n)]"
  by (simp add: ids_upto_def)

lemma distinct_ids_upto: "distinct (ids_upto p n)"
  by (auto simp: ids_upto_def distinct_map inj_on_def dest: str_nat_inj)

lemma map_p_id_update:
  "i < length ps \<Longrightarrow> p_id q = p_id (ps ! i) \<Longrightarrow> map p_id (ps[i := q]) = map p_id ps"
  by (simp add: map_update list_update_same_conv)

lemma ids_ok_default: "ids_ok default_state"
  by (simp add: ids_ok_def default_state_def ids_upto_def)

lemma ids_ok_personnel:
  assumes "ids_ok (session w)" "page_personnel g w = (PersonnelSaved, w')"
  shows "ids_ok (session w')"
proof -
  from page_personnel_SavedD [OF assms(2)] obtain new where
    "session w' = (session w)\<lparr>personnel := personnel (session w) @ [new]\<rparr>"
    "p_id new = generate_id ''P'' (personnel (session w))"
    by blast
  with assms(1) show ?thesis
    by (simp add: ids_ok_def ids_upto_Suc generate_id_def)
qed

lemma ids_ok_leaves:
  assumes "ids_ok (session w)" "page_leaves f now w = (Inr LeaveLaunched, w')"
  shows "ids_ok (session w')"
proof -
  from page_leaves_LaunchedD [OF assms(2)] obtain pid where
    "page_leaves_selected f now pid w = (Inr LeaveLaunched, w')"
    by blast
  from page_leaves_selected_LaunchedD [OF this] obtain i where
    i: "find_person_by_id (session w) pid = Some i"
    and s': "session w' = \<lparr>personnel = (personnel (session w))[i :=
           adjust_balances (tipo f) (toordinal (end' f) - toordinal (start f) + 1)
             (personnel (session w) ! i)],
         leaves = leaves (session w) @ [new_leave_of f now (session w) i]\<rparr>"
    by blast
  from i have "i < length (personnel (session w))"
    by (auto simp: find_person_by_id_def dest: first_index_SomeD)
  with assms(1) show ?thesis
    by (simp add: ids_ok_def s' map_p_id_update ids_upto_Suc new_leave_of_def generate_id_def)
qed

lemma reachable_ids: "reachable w \<Longrightarrow> ids_ok (session w)"
proof (induction rule: reachable.induct)
  case (first_session s)
  then have "s = default_state"
    by (rule first_session_state)
  then show ?case
    by (simp add: ids_ok_default)
next
  case (efetivo w g)
  show ?case
  proof (cases "snd (page_personnel g w) = w")
    case True
    with efetivo show ?thesis by simp
  next
    case False
    with page_personnel_cases [of g w]
    have "page_personnel g w = (PersonnelSaved, snd (page_personnel g w))"
      by (simp add: prod_eq_iff)
    with efetivo show ?thesis
      by (blast intro: ids_ok_personnel)
  qed
next
  case (afastamentos w f now)
  show ?case
  proof (cases "snd (page_leaves f now w) = w")
    case True
    with afastamentos show ?thesis by simp
  next
    case False
    with page_leaves_cases [of f now w]
    have "page_leaves f now w = (Inr LeaveLaunched, snd (page_leaves f now w))"
      by (simp add: prod_eq_iff)
    with afastamentos show ?thesis
      by (blast intro: ids_ok_leaves)
  qed
next
  case (new_session w s)
  from new_session_state [OF new_session(1,2)] have "s = session w" .
  with new_session show ?case
    by simp
qed

lemma balances_ok_default: "balances_ok default_state"
  by (simp add: balances_ok_def default_state_def)

lemma adjust_balances_nonneg:
  "0 \<le> saldoFerias p \<and> 0 \<le> saldoAbono p
   \<Longrightarrow> 0 \<le> saldoFerias (adjust_balances t d p) \<and> 0 \<le> saldoAbono (adjust_balances t d p)"
  by (simp add: adjust_balances_def Let_def)

lemma list_all_update: "list_all P xs \<Longrightarrow> P y \<Longrightarrow> list_all P (xs[i := y])"
  by (induction xs arbitrary: i) (auto split: nat.splits)

lemma balances_ok_personnel:
  assumes "balances_ok (session w)" "widgets_ok_P g" "page_personnel g w = (PersonnelSaved, w')"
  shows "balances_ok (session w')"
proof -
  from page_personnel_SavedD [OF assms(3)] obtain new where
    "session w' = (session w)\<lparr>personnel := personnel (session w) @ [new]\<rparr>"
    "saldoFerias new = saldo_ferias g" "saldoAbono new = saldo_abono g"
    by blast
  with assms(1,2) show ?thesis
    by (simp add: balances_ok_def widgets_ok_P_def)
qed

lemma balances_ok_leaves:
  assumes "balances_ok (session w)" "page_leaves f now w = (Inr LeaveLaunched, w')"
  shows "balances_ok (session w')"
proof -
  from page_leaves_LaunchedD [OF assms(2)] obtain pid where
    "page_leaves_selected f now pid w = (Inr LeaveLaunched, w')"
    by blast
  from page_leaves_selected_LaunchedD [OF this] obtain i where
    i: "find_person_by_id (session w) pid = Some i"
    and s': "session w' = \<lparr>personnel = (personnel (session w))[i :=
           adjust_balances (tipo f) (toordinal (end' f) - toordinal (start f) + 1)
             (personnel (session w) ! i)],
         leaves = leaves (session w) @ [new_leave_of f now (session w) i]\<rparr>"
    by blast
  from i have "i < length (personnel (session w))"
    by (auto simp: find_person_by_id_def dest: first_index_SomeD)
  with assms(1) have "0 \<le> saldoFerias (personnel (session w) ! i)
      \<and> 0 \<le> saldoAbono (personnel (session w) ! i)"
    by (simp add: balances_ok_def list_all_length)
  from adjust_balances_nonneg [OF this] assms(1) show ?thesis
    by (simp add: balances_ok_def s' list_all_update)
qed

lemma reachable_world3: "reachable world3"
proof -
  have "load_state None = Inr (obj_state (default_state :: state))"
    by (simp add: obj_state_default)
  then have "reachable world0"
    unfolding world0_def by (rule reachable.first_session)
  moreover have "widgets_ok_P maria_form"
    by (simp add: widgets_ok_P_def maria_form_def Rank_values_def UserRole_values_def)
  ultimately have "reachable world1"
    unfolding world1_def by (rule reachable.efetivo)
  then have "reachable world2"
    unfolding world2_def by (rule reachable.afastamentos)
  then show ?thesis
    unfolding world3_def by (rule reachable.afastamentos)
qed

text \<open>
  Claim C5. In every world reached from a first session, the Personnel at position \<open>k\<close>
  (counted from 0) has the identifier P followed by \<open>k + 1\<close> and the leave at position
  \<open>k\<close> the identifier L followed by \<open>k + 1\<close>, no identifier occurs twice, and a saved
  registration (a launched leave) appends one entity whose identifier is the prefix followed
  by the size of the collection plus one, an identifier not in use.
\<close>

theorem identifiers_follow_creation_order:
  assumes "reachable w"
  shows "map p_id (personnel (session w)) = ids_upto ''P'' (length (personnel (session w)))
     \<and> map l_id (leaves (session w)) = ids_upto ''L'' (length (leaves (session w)))
     \<and> distinct (map p_id (personnel (session w)))
     \<and> distinct (map l_id (leaves (session w)))
     \<and> (\<forall>g w'. page_personnel g w = (PersonnelSaved, w') \<longrightarrow>
          (\<exists>new. personnel (session w') = personnel (session w) @ [new]
             \<and> p_id new = ''P'' @ str_nat (length (personnel (session w)) + 1)
             \<and> p_id new \<notin> set (map p_id (personnel (session w)))))
     \<and> (\<forall>f now w'. page_leaves f now w = (Inr LeaveLaunched, w') \<longrightarrow>
          (\<exists>new. leaves (session w') = leaves (session w) @ [new]
             \<and> l_id new = ''L'' @ str_nat (length (leaves (session w)) + 1)
             \<and> l_id new \<notin> set (map l_id (leaves (session w)))))"
proof (intro conjI allI impI)
  from reachable_ids [OF assms]
  show p: "map p_id (personnel (session w)) = ids_upto ''P'' (length (personnel (session w)))"
    and l: "map l_id (leaves (session w)) = ids_upto ''L'' (length (leaves (session w)))"
    by (simp_all add: ids_ok_def)
  show "distinct (map p_id (personnel (session w)))"
    by (simp add: p distinct_ids_upto)
  show "distinct (map l_id (leaves (session w)))"
    by (simp add: l distinct_ids_upto)
next
  fix g w'
  assume a: "page_personnel g w = (PersonnelSaved, w')"
  from page_personnel_SavedD [OF a] obtain new where
    s': "session w' = (session w)\<lparr>personnel := personnel (session w) @ [new]\<rparr>"
    and n: "p_id new = generate_id ''P'' (personnel (session w))"
    by blast
  from reachable_ids [OF assms] a have "ids_ok (session w')"
    by (rule ids_ok_personnel)
  then have "distinct (map p_id (personnel (session w')))"
    by (simp add: ids_ok_def distinct_ids_upto)
  then have "p_id new \<notin> set (map p_id (personnel (session w)))"
    by (simp add: s')
  with s' n show "\<exists>new. personnel (session w') = personnel (session w) @ [new]
             \<and> p_id new = ''P'' @ str_nat (length (personnel (session w)) + 1)
             \<and> p_id new \<notin> set (map p_id (personnel (session w)))"
    by (auto simp: generate_id_def)
next
  fix f now w'
  assume a: "page_leaves f now w = (Inr LeaveLaunched, w')"
  from page_leaves_LaunchedD [OF a] obtain pid where
    "page_leaves_selected f now pid w = (Inr LeaveLaunched, w')"
    by blast
  from page_leaves_selected_LaunchedD [OF this] obtain i where
    s': "leaves (session w') = leaves (session w) @ [new_leave_of f now (session w) i]"
    by auto
  from reachable_ids [OF assms] a have "ids_ok (session w')"
    by (rule ids_ok_leaves)
  then have "distinct (map l_id (leaves (session w')))"
    by (simp add: ids_ok_def distinct_ids_upto)
  then have "l_id (new_leave_of f now (session w) i) \<notin> set (map l_id (leaves (session w)))"
    by (simp add: s')
  with s' show "\<exists>new. leaves (session w') = leaves (session w) @ [new]
             \<and> l_id new = ''L'' @ str_nat (length (leaves (session w)) + 1)
             \<and> l_id new \<notin> set (map l_id (leaves (session w)))"
    by (auto simp: new_leave_of_def generate_id_def)
qed

theorem identifiers_follow_creation_order_witness:
  "reachable world3 \<and> map p_id (personnel (session world3)) = [''P1'']
   \<and> map l_id (leaves (session world3)) = [''L1'', ''L2'']"
proof -
  from identifiers_follow_creation_order [OF reachable_world3]
  have "map p_id (personnel (session world3)) = ids_upto ''P'' (length (personnel (session world3)))"
    and "map l_id (leaves (session world3)) = ids_upto ''L'' (length (leaves (session world3)))"
    by blast+
  moreover have "ids_upto ''P'' (length (personnel (session world3))) = [''P1'']"
    by code_simp
  moreover have "ids_upto ''L'' (length (leaves (session world3))) = [''L1'', ''L2'']"
    by code_simp
  ultimately show ?thesis
    using reachable_world3 by simp
qed

text \<open>
  Claim C9, as the program has it. In every world reached from a first session (no file yet)
  through registrations whose two balances respect the \<open>min_value=0\<close> of the form, through
  the leave page, and through later sessions that load what these runs saved, both balances of
  every Personnel are non-negative. \<open>load_state\<close> itself takes the balances of a file as
  they are.
\<close>

theorem balances_never_negative:
  assumes "reachable w"
  shows "balances_ok (session w)"
  using assms
proof (induction rule: reachable.induct)
  case (first_session s)
  then have "s = default_state"
    by (rule first_session_state)
  then show ?case
    by (simp add: balances_ok_default)
next
  case (efetivo w g)
  show ?case
  proof (cases "snd (page_personnel g w) = w")
    case True
    with efetivo show ?thesis by simp
  next
    case False
    with page_personnel_cases [of g w]
    have "page_personnel g w = (PersonnelSaved, snd (page_personnel g w))"
      by (simp add: prod_eq_iff)
    with efetivo show ?thesis
      by (blast intro: balances_ok_personnel)
  qed
next
  case (afastamentos w f now)
  show ?case
  proof (cases "snd (page_leaves f now w) = w")
    case True
    with afastamentos show ?thesis by simp
  next
    case False
    with page_leaves_cases [of f now w]
    have "page_leaves f now w = (Inr LeaveLaunched, snd (page_leaves f now w))"
      by (simp add: prod_eq_iff)
    with afastamentos show ?thesis
      by (blast intro: balances_ok_leaves)
  qed
next
  case (new_session w s)
  from new_session_state [OF new_session(1,2)] have "s = session w" .
  with new_session show ?case
    by simp
qed

theorem balances_never_negative_witness:
  "reachable world3 \<and> balances_ok (session world3)"
  using balances_never_negative [OF reachable_world3] reachable_world3 by simp

theorem balances_never_negative_counterexample:
  "load_state (Some (Document negative_doc)) = Inr (obj_state negative_state)
   \<and> \<not> balances_ok negative_state"
  by code_simp

section \<open>Loading a file, constructing the entities\<close>

lemma comprehension_Inl: "comprehension f xs = Inl e \<Longrightarrow> \<exists>x\<in>set xs. f x = Inl e"
proof (induction xs)
  case Nil
  then show ?case by simp
next
  case (Cons x xs)
  show ?case
  proof (cases "f x")
    case (Inl e')
    with Cons.prems show ?thesis by simp
  next
    case (Inr y)
    with Cons.prems have "comprehension f xs = Inl e"
      by (cases "comprehension f xs") simp_all
    with Cons.IH show ?thesis by simp
  qed
qed

lemma comprehension_fails:
  assumes "x \<in> set xs" "f x = Inl e" "\<forall>y e'. f y = Inl e' \<longrightarrow> e' = e"
  shows "comprehension f xs = Inl e"
proof (cases "comprehension f xs")
  case (Inl e')
  from comprehension_Inl [OF this] assms(3) show ?thesis
    using Inl by blast
next
  case (Inr ys)
  have "comprehension f xs = Inr ys \<Longrightarrow> \<forall>x\<in>set xs. \<exists>y. f x = Inr y" for xs ys
  proof (induction xs arbitrary: ys)
    case Nil
    then show ?case by simp
  next
    case (Cons a xs)
    then show ?case
      by (cases "f a"; cases "comprehension f xs") simp_all
  qed
  from this [OF Inr] assms(1,2) show ?thesis
    by auto
qed

lemma comprehension_ok:
  "(\<And>x. x \<in> set xs \<Longrightarrow> \<exists>y. f x = Inr y)
   \<Longrightarrow> \<exists>ys. comprehension f xs = Inr ys \<and> length ys = length xs"
proof (induction xs)
  case Nil
  then show ?case by simp
next
  case (Cons x xs)
  from Cons.prems [of x] obtain y where y: "f x = Inr y"
    by auto
  from Cons.IH Cons.prems obtain ys where "comprehension f xs = Inr ys" "length ys = length xs"
    by auto
  with y show ?case
    by simp
qed

lemma Personnel_kw_Inl: "Personnel_kw j = Inl e \<Longrightarrow> e = TypeError"
  by (cases j) (auto split: if_splits option.splits)

lemma LeaveRecord_kw_Inl: "LeaveRecord_kw j = Inl e \<Longrightarrow> e = TypeError"
  by (cases j) (auto split: if_splits option.splits)

lemma dict_get_Some_key: "dict_get kvs k = Some v \<Longrightarrow> k \<in> set (map fst kvs)"
  using dict_get_None_iff [of kvs k] by auto

lemma dict_get_key: "k \<in> set (map fst kvs) \<Longrightarrow> \<exists>v. dict_get kvs k = Some v"
  using dict_get_None_iff [of kvs k] by auto

lemma Personnel_kw_InrD:
  assumes "Personnel_kw j = Inr p"
  shows "is_entity Personnel_fields j"
proof (cases j)
  case (JObj kvs)
  from assms have sub: "set (map fst kvs) \<subseteq> set Personnel_fields"
    by (auto simp: JObj list_all_iff split: if_splits)
  from assms have "\<forall>k\<in>set Personnel_fields. \<exists>v. dict_get kvs k = Some v"
    by (auto simp: JObj Personnel_fields_def bind_eq_Some_conv split: if_splits option.splits)
  then have "set Personnel_fields \<subseteq> set (map fst kvs)"
    by (blast dest: dict_get_Some_key)
  with sub show ?thesis
    by (simp add: JObj)
qed (use assms in simp_all)

lemma Personnel_kw_entity:
  assumes "is_entity Personnel_fields j"
  shows "\<exists>p. Personnel_kw j = Inr p"
proof (cases j)
  case (JObj kvs)
  with assms have eq: "set (map fst kvs) = set Personnel_fields"
    by simp
  then have all: "list_all (\<lambda>k. k \<in> set Personnel_fields) (map fst kvs)"
    by (auto simp: list_all_iff)
  have "\<forall>k\<in>set Personnel_fields. dict_get kvs k \<noteq> None"
    using eq dict_get_None_iff [of kvs] by auto
  then have some: "dict_get kvs ''id'' \<noteq> None \<and> dict_get kvs ''ant'' \<noteq> None
      \<and> dict_get kvs ''grad'' \<noteq> None \<and> dict_get kvs ''quadro'' \<noteq> None
      \<and> dict_get kvs ''nome'' \<noteq> None \<and> dict_get kvs ''matr'' \<noteq> None
      \<and> dict_get kvs ''unid'' \<noteq> None \<and> dict_get kvs ''secao'' \<noteq> None
      \<and> dict_get kvs ''situacao'' \<noteq> None \<and> dict_get kvs ''esc'' \<noteq> None
      \<and> dict_get kvs ''saldoFerias'' \<noteq> None \<and> dict_get kvs ''saldoAbono'' \<noteq> None
      \<and> dict_get kvs ''role'' \<noteq> None"
    by (simp add: Personnel_fields_def)
  show ?thesis
  proof (cases "Personnel_kw j")
    case (Inl e)
    with all some show ?thesis
      by (simp add: JObj bind_eq_None_conv split: option.splits)
  next
    case (Inr p)
    then show ?thesis by blast
  qed
qed (use assms in simp_all)

lemma LeaveRecord_kw_InrD:
  assumes "LeaveRecord_kw j = Inr p"
  shows "is_entity LeaveRecord_fields j"
proof (cases j)
  case (JObj kvs)
  from assms have sub: "set (map fst kvs) \<subseteq> set LeaveRecord_fields"
    by (auto simp: JObj list_all_iff split: if_splits)
  from assms have "\<forall>k\<in>set LeaveRecord_fields. \<exists>v. dict_get kvs k = Some v"
    by (auto simp: JObj LeaveRecord_fields_def bind_eq_Some_conv split: if_splits option.splits)
  then have "set LeaveRecord_fields \<subseteq> set (map fst kvs)"
    by (blast dest: dict_get_Some_key)
  with sub show ?thesis
    by (simp add: JObj)
qed (use assms in simp_all)

lemma LeaveRecord_kw_entity:
  assumes "is_entity LeaveRecord_fields j"
  shows "\<exists>p. LeaveRecord_kw j = Inr p"
proof (cases j)
  case (JObj kvs)
  with assms have eq: "set (map fst kvs) = set LeaveRecord_fields"
    by simp
  then have all: "list_all (\<lambda>k. k \<in> set LeaveRecord_fields) (map fst kvs)"
    by (auto simp: list_all_iff)
  have "\<forall>k\<in>set LeaveRecord_fields. dict_get kvs k \<noteq> None"
    using eq dict_get_None_iff [of kvs] by auto
  then have some: "dict_get kvs ''id'' \<noteq> None \<and> dict_get kvs ''personnel_id'' \<noteq> None
      \<and> dict_get kvs ''type'' \<noteq> None \<and> dict_get kvs ''startDate'' \<noteq> None
      \<and> dict_get kvs ''endDate'' \<noteq> None \<and> dict_get kvs ''description'' \<noteq> None
      \<and> dict_get kvs ''createdAt'' \<noteq> None"
    by (simp add: LeaveRecord_fields_def)
  show ?thesis
  proof (cases "LeaveRecord_kw j")
    case (Inl e)
    with all some show ?thesis
      by (simp add: JObj bind_eq_None_conv split: option.splits)
  next
    case (Inr p)
    then show ?thesis by blast
  qed
qed (use assms in simp_all)

lemma Personnel_kw_not_entity:
  "\<not> is_entity Personnel_fields j \<Longrightarrow> Personnel_kw j = Inl TypeError"
  using Personnel_kw_InrD [of j] Personnel_kw_Inl [of j]
  by (cases "Personnel_kw j") auto

lemma LeaveRecord_kw_not_entity:
  "\<not> is_entity LeaveRecord_fields j \<Longrightarrow> LeaveRecord_kw j = Inl TypeError"
  using LeaveRecord_kw_InrD [of j] LeaveRecord_kw_Inl [of j]
  by (cases "LeaveRecord_kw j") auto

lemma load_state_TypeError_personnel:
  assumes "dict_get kvs ''personnel'' = Some (JArr ps)" "p \<in> set ps"
    "\<not> is_entity Personnel_fields p"
  shows "load_state (Some (Document (JObj kvs))) = Inl TypeError"
proof -
  have "comprehension Personnel_kw ps = Inl TypeError"
    using assms(2) Personnel_kw_not_entity [OF assms(3)] Personnel_kw_Inl
    by (intro comprehension_fails [of p]) auto
  with assms(1) show ?thesis
    by simp
qed

lemma load_state_TypeError_leaves:
  assumes "dict_get kvs ''personnel'' = Some (JArr ps)" "\<forall>p\<in>set ps. is_entity Personnel_fields p"
    "dict_get kvs ''leaves'' = Some (JArr ls)" "l \<in> set ls" "\<not> is_entity LeaveRecord_fields l"
  shows "load_state (Some (Document (JObj kvs))) = Inl TypeError"
proof -
  from assms(2) obtain ps' where "comprehension Personnel_kw ps = Inr ps'"
    using comprehension_ok [of ps Personnel_kw] Personnel_kw_entity by blast
  moreover have "comprehension LeaveRecord_kw ls = Inl TypeError"
    using assms(4) LeaveRecord_kw_not_entity [OF assms(5)] LeaveRecord_kw_Inl
    by (intro comprehension_fails [of l]) auto
  ultimately show ?thesis
    using assms(1,3) by simp
qed

lemma load_state_entities:
  assumes "dict_get kvs ''personnel'' = Some (JArr ps)" "\<forall>p\<in>set ps. is_entity Personnel_fields p"
    "dict_get kvs ''leaves'' = Some (JArr ls)" "\<forall>l\<in>set ls. is_entity LeaveRecord_fields l"
  shows "\<exists>d. load_state (Some (Document (JObj kvs))) = Inr d
     \<and> length (personnel d) = length ps \<and> length (leaves d) = length ls"
proof -
  from assms(2) obtain ps' where "comprehension Personnel_kw ps = Inr ps'" "length ps' = length ps"
    using comprehension_ok [of ps Personnel_kw] Personnel_kw_entity by blast
  moreover from assms(4) obtain ls' where "comprehension LeaveRecord_kw ls = Inr ls'"
    "length ls' = length ls"
    using comprehension_ok [of ls LeaveRecord_kw] LeaveRecord_kw_entity by blast
  ultimately show ?thesis
    using assms(1,3) by simp
qed

lemma load_state_no_keys:
  "dict_get kvs ''personnel'' = None \<Longrightarrow> dict_get kvs ''leaves'' = None
   \<Longrightarrow> load_state (Some (Document (JObj kvs))) = Inr default_state"
  by (simp add: default_state_def)

lemma load_state_not_object:
  "\<forall>kvs. raw \<noteq> JObj kvs \<Longrightarrow> load_state (Some (Document raw)) = Inl AttributeError"
  by (cases raw) simp_all

text \<open>
  Claim C7, as the program has it. Without a file, \<open>load_state\<close> returns the empty state.
  With a file it checks nothing against the entity schemas and has no error of its own: a
  document that is not an object raises \<open>AttributeError\<close>; an element of \<open>personnel\<close>, or
  of \<open>leaves\<close> when the Personnel are in order, that is not an object with exactly the field
  names of its dataclass raises \<open>TypeError\<close>; when every element carries exactly the field
  names the load succeeds, whatever the values; and a document with neither key loads as the
  empty state, its other members dropped.
\<close>

theorem load_state_cases:
  "load_state None = Inr default_state
   \<and> ((\<forall>kvs. raw \<noteq> JObj kvs) \<longrightarrow> load_state (Some (Document raw)) = Inl AttributeError)
   \<and> (dict_get kvs1 ''personnel'' = Some (JArr ps1) \<and> (\<exists>p\<in>set ps1. \<not> is_entity Personnel_fields p)
        \<longrightarrow> load_state (Some (Document (JObj kvs1))) = Inl TypeError)
   \<and> (dict_get kvs2 ''personnel'' = Some (JArr ps2) \<and> (\<forall>p\<in>set ps2. is_entity Personnel_fields p)
        \<and> dict_get kvs2 ''leaves'' = Some (JArr ls2) \<and> (\<exists>l\<in>set ls2. \<not> is_entity LeaveRecord_fields l)
        \<longrightarrow> load_state (Some (Document (JObj kvs2))) = Inl TypeError)
   \<and> (dict_get kvs3 ''personnel'' = Some (JArr ps3) \<and> (\<forall>p\<in>set ps3. is_entity Personnel_fields p)
        \<and> dict_get kvs3 ''leaves'' = Some (JArr ls3) \<and> (\<forall>l\<in>set ls3. is_entity LeaveRecord_fields l)
        \<longrightarrow> (\<exists>d. load_state (Some (Document (JObj kvs3))) = Inr d
              \<and> length (personnel d) = length ps3 \<and> length (leaves d) = length ls3))
   \<and> (dict_get kvs4 ''personnel'' = None \<and> dict_get kvs4 ''leaves'' = None
        \<longrightarrow> load_state (Some (Document (JObj kvs4))) = Inr default_state)"
proof (intro conjI impI)
  show "load_state None = Inr default_state"
    by simp
next
  assume "\<forall>kvs. raw \<noteq> JObj kvs"
  then show "load_state (Some (Document raw)) = Inl AttributeError"
    by (rule load_state_not_object)
next
  assume "dict_get kvs1 ''personnel'' = Some (JArr ps1) \<and> (\<exists>p\<in>set ps1. \<not> is_entity Personnel_fields p)"
  then show "load_state (Some (Document (JObj kvs1))) = Inl TypeError"
    by (blast intro: load_state_TypeError_personnel)
next
  assume "dict_get kvs2 ''personnel'' = Some (JArr ps2) \<and> (\<forall>p\<in>set ps2. is_entity Personnel_fields p)
        \<and> dict_get kvs2 ''leaves'' = Some (JArr ls2) \<and> (\<exists>l\<in>set ls2. \<not> is_entity LeaveRecord_fields l)"
  then show "load_state (Some (Document (JObj kvs2))) = Inl TypeError"
    by (blast intro: load_state_TypeError_leaves)
next
  assume "dict_get kvs3 ''personnel'' = Some (JArr ps3) \<and> (\<forall>p\<in>set ps3. is_entity Personnel_fields p)
        \<and> dict_get kvs3 ''leaves'' = Some (JArr ls3) \<and> (\<forall>l\<in>set ls3. is_entity LeaveRecord_fields l)"
  then show "\<exists>d. load_state (Some (Document (JObj kvs3))) = Inr d
              \<and> length (personnel d) = length ps3 \<and> length (leaves d) = length ls3"
    by (blast intro: load_state_entities)
next
  assume "dict_get kvs4 ''personnel'' = None \<and> dict_get kvs4 ''leaves'' = None"
  then show "load_state (Some (Document (JObj kvs4))) = Inr default_state"
    by (blast intro: load_state_no_keys)
qed

theorem load_state_cases_witness:
  "load_state (Some (Document (JArr []))) = Inl AttributeError
   \<and> load_state (Some (Document (JObj [(''personnel'', JArr [JNull])]))) = Inl TypeError
   \<and> load_state (Some (Document (JObj [(''personnel'', JArr []), (''leaves'', JArr [JInt 3])])))
       = Inl TypeError
   \<and> (\<exists>d. load_state (Some (Document
          (JObj [(''personnel'', JArr [odd_person]), (''leaves'', JArr [odd_leave])]))) = Inr d
        \<and> length (personnel d) = 1 \<and> length (leaves d) = 1)
   \<and> load_state (Some (Document (JObj [(''version'', JInt 2)]))) = Inr default_state"
proof -
  have h0: "\<forall>kvs. JArr [] \<noteq> JObj kvs"
    by simp
  have h1: "dict_get [(''personnel'', JArr [JNull])] ''personnel'' = Some (JArr [JNull])
      \<and> (\<exists>p\<in>set [JNull]. \<not> is_entity Personnel_fields p)"
    by (simp add: dict_get_def)
  have h2: "dict_get [(''personnel'', JArr []), (''leaves'', JArr [JInt 3])] ''personnel''
        = Some (JArr [])
      \<and> (\<forall>p\<in>set []. is_entity Personnel_fields p)
      \<and> dict_get [(''personnel'', JArr []), (''leaves'', JArr [JInt 3])] ''leaves''
        = Some (JArr [JInt 3])
      \<and> (\<exists>l\<in>set [JInt 3]. \<not> is_entity LeaveRecord_fields l)"
    by (simp add: dict_get_def)
  have e: "is_entity Personnel_fields odd_person" "is_entity LeaveRecord_fields odd_leave"
    by code_simp+
  have h3: "dict_get [(''personnel'', JArr [odd_person]), (''leaves'', JArr [odd_leave])]
        ''personnel'' = Some (JArr [odd_person])
      \<and> (\<forall>p\<in>set [odd_person]. is_entity Personnel_fields p)
      \<and> dict_get [(''personnel'', JArr [odd_person]), (''leaves'', JArr [odd_leave])]
        ''leaves'' = Some (JArr [odd_leave])
      \<and> (\<forall>l\<in>set [odd_leave]. is_entity LeaveRecord_fields l)"
    using e by (simp add: dict_get_def)
  have h4: "dict_get [(''version'', JInt 2)] ''personnel'' = None
      \<and> dict_get [(''version'', JInt 2)] ''leaves'' = None"
    by (simp add: dict_get_def)
  from load_state_cases [of "JArr []" "[(''personnel'', JArr [JNull])]" "[JNull]"
      "[(''personnel'', JArr []), (''leaves'', JArr [JInt 3])]" "[]" "[JInt 3]"
      "[(''personnel'', JArr [odd_person]), (''leaves'', JArr [odd_leave])]" "[odd_person]"
      "[odd_leave]" "[(''version'', JInt 2)]"] h0 h1 h2 h3 h4
  show ?thesis
    by simp
qed

theorem load_state_cases_counterexample:
  "load_state (Some (Document odd_doc)) = Inr \<lparr>personnel = [\<lparr>p_id = JStr ''P1'', ant = JInt 1,
      grad = JStr ''GENERAL'', quadro = JStr ''QOPM'', nome = JStr ''Maria Silva'',
      matr = JStr ''12345'', unid = JStr ''DLF'', secao = JStr ''SAD'', situacao = JStr ''ATIVO'',
      esc = JStr ''EXP'', saldoFerias = JStr ''trinta'', saldoAbono = JInt 5, role = JInt 7\<rparr>],
      leaves = []\<rparr>"
  by code_simp

text \<open>
  Claim C8, as the program has it. The constructors of the two dataclasses validate nothing:
  called with their field names, they succeed for all values and store them as given, be it an
  end date before the start date or a rank, role or leave type outside the enumerations.
  Whether a construction succeeds depends on the names of the keywords alone.
\<close>

theorem constructors_store_any_value:
  "Personnel_kw (JObj [(''id'', v1), (''ant'', v2), (''grad'', v3), (''quadro'', v4),
       (''nome'', v5), (''matr'', v6), (''unid'', v7), (''secao'', v8), (''situacao'', v9),
       (''esc'', v10), (''saldoFerias'', v11), (''saldoAbono'', v12), (''role'', v13)])
     = Inr \<lparr>p_id = v1, ant = v2, grad = v3, quadro = v4, nome = v5, matr = v6, unid = v7,
         secao = v8, situacao = v9, esc = v10, saldoFerias = v11, saldoAbono = v12, role = v13\<rparr>
   \<and> LeaveRecord_kw (JObj [(''id'', u1), (''personnel_id'', u2), (''type'', u3),
       (''startDate'', u4), (''endDate'', u5), (''description'', u6), (''createdAt'', u7)])
     = Inr \<lparr>l_id = u1, personnel_id = u2, l_type = u3, startDate = u4, endDate = u5,
         description = u6, createdAt = u7\<rparr>
   \<and> ((\<exists>p. Personnel_kw j = Inr p) \<longleftrightarrow> is_entity Personnel_fields j)
   \<and> ((\<exists>l. LeaveRecord_kw j = Inr l) \<longleftrightarrow> is_entity LeaveRecord_fields j)"
proof (intro conjI)
  show "(\<exists>p. Personnel_kw j = Inr p) \<longleftrightarrow> is_entity Personnel_fields j"
    using Personnel_kw_InrD [of j] Personnel_kw_entity [of j] by blast
  show "(\<exists>l. LeaveRecord_kw j = Inr l) \<longleftrightarrow> is_entity LeaveRecord_fields j"
    using LeaveRecord_kw_InrD [of j] LeaveRecord_kw_entity [of j] by blast
qed (simp_all add: dict_get_def Personnel_fields_def LeaveRecord_fields_def)

theorem constructors_store_any_value_witness:
  "is_entity Personnel_fields odd_person \<and> (\<exists>p. Personnel_kw odd_person = Inr p)
   \<and> \<not> is_entity LeaveRecord_fields odd_person \<and> (\<nexists>l. LeaveRecord_kw odd_person = Inr l)"
proof -
  have "is_entity Personnel_fields odd_person" "\<not> is_entity LeaveRecord_fields odd_person"
    by code_simp+
  with constructors_store_any_value [where j = odd_person, THEN conjunct2, THEN conjunct2]
  show ?thesis
    by blast
qed

theorem constructors_store_any_value_counterexample:
  "LeaveRecord_kw odd_leave = Inr \<lparr>l_id = JStr ''L1'', personnel_id = JStr ''P1'',
      l_type = JStr ''FOLGA'', startDate = JStr ''2024-02-10'', endDate = JStr ''2024-02-01'',
      description = JStr [], createdAt = JStr ''2024-02-01T10:00:00''\<rparr>
   \<and> ''FOLGA'' \<notin> set LeaveType_values
   \<and> \<not> str_le ''2024-02-10'' ''2024-02-01''
   \<and> Personnel_kw odd_person = Inr \<lparr>p_id = JStr ''P1'', ant = JInt 1,
      grad = JStr ''GENERAL'', quadro = JStr ''QOPM'', nome = JStr ''Maria Silva'',
      matr = JStr ''12345'', unid = JStr ''DLF'', secao = JStr ''SAD'', situacao = JStr ''ATIVO'',
      esc = JStr ''EXP'', saldoFerias = JStr ''trinta'', saldoAbono = JInt 5, role = JInt 7\<rparr>
   \<and> ''GENERAL'' \<notin> set Rank_values"
  by code_simp



section \<open>The dashboard\<close>

text \<open>The loop of the dashboard counts leave records.\<close>

lemma count_em_ferias_filter:
  "count_em_ferias hoje ls n = n + length (filter (\<lambda>l. l_type l = LeaveType_value FERIAS
     \<and> str_le (startDate l) hoje \<and> str_le hoje (endDate l)) ls)"
  by (induction ls arbitrary: n) simp_all

text \<open>
  Claim C4, at the world reached by registering Maria Silva and launching two vacations for
  her that both contain 2024-01-06: the dashboard shows two persons on vacation, where the
  specification counts one.
\<close>

theorem dashboard_counts_records:
  "page_dashboard (session world3) today0 = (1, 2)
   \<and> personnelOnLeaveToday_spec (session world3) today0 = 1"
  by code_simp

end
